theory Spec2Isabelle
  imports Complex_Main
begin

section \<open>The curse-of-dimensionality experiment (\<^verbatim>\<open>src/cod_exp.py\<close>)\<close>

text \<open>
  The program is one Python function, \<^verbatim>\<open>exp_curse_of_dimensionality(save_path, show)\<close>,
  and a \<^verbatim>\<open>__main__\<close> block that calls it with no arguments. It is embedded as a function
  from the arguments and the state of the process to an outcome and the new state.

  Conventions of the embedding:
  \<^item> Python floats and numpy's \<^verbatim>\<open>float64\<close> are idealised as \<^typ>\<open>real\<close>: rounding, overflow
    and NaN are not modelled. The literal \<^verbatim>\<open>1e-12\<close> is the real \<open>1 / 10 ^ 12\<close>.
  \<^item> A numpy array of shape \<open>(n, d)\<close> is the list of its \<open>n\<close> rows.
  \<^item> Exceptions are values of \<open>error\<close>; a call that can raise returns \<open>error + 'a\<close>.
  \<^item> The libraries the function calls (numpy's generator, scipy's \<^verbatim>\<open>pdist\<close>, matplotlib,
    \<^verbatim>\<open>format\<close>) are not code of the repository. Their documented behaviour is written
    out below; what depends on the host (the random numbers, which style sheets are
    installed, whether a path can be written, what the display does) is a field of
    the record \<open>env\<close>.
\<close>

subsection \<open>Errors\<close>

datatype error = ValueError | ZeroDivisionError | OSError | BackendError

subsection \<open>Numeric primitives\<close>

text \<open>
  \<^verbatim>\<open>scipy.spatial.distance.pdist(X)\<close> with the default metric: the Euclidean distance of
  every pair of rows \<open>i < j\<close>, in the order \<open>(0,1), (0,2), \<dots>, (0,n-1), (1,2), \<dots>\<close>.
\<close>

definition euclidean :: "real list \<Rightarrow> real list \<Rightarrow> real" where
  "euclidean u v = sqrt (\<Sum>(a, b)\<leftarrow>zip u v. (a - b)\<^sup>2)"

fun pdist :: "real list list \<Rightarrow> real list" where
  "pdist [] = []"
| "pdist (u # vs) = map (euclidean u) vs @ pdist vs"

text \<open>
  \<^verbatim>\<open>dists.min()\<close> and \<^verbatim>\<open>dists.max()\<close>: numpy raises \<^verbatim>\<open>ValueError\<close> on an array of size
  zero; otherwise the reduction runs over the elements from the first one.
\<close>

fun ndarray_min :: "real list \<Rightarrow> error + real" where
  "ndarray_min [] = Inl ValueError"
| "ndarray_min (x # xs) = Inr (fold min xs x)"

fun ndarray_max :: "real list \<Rightarrow> error + real" where
  "ndarray_max [] = Inl ValueError"
| "ndarray_max (x # xs) = Inr (fold max xs x)"

text \<open>
  \<^verbatim>\<open>a / b\<close> on Python floats (both operands went through \<^verbatim>\<open>float(...)\<close> or are float
  literals): a zero divisor raises \<^verbatim>\<open>ZeroDivisionError\<close>.
\<close>

definition float_truediv :: "real \<Rightarrow> real \<Rightarrow> error + real" where
  "float_truediv a b = (if b = 0 then Inl ZeroDivisionError else Inr (a / b))"

text \<open>\<^verbatim>\<open>str(n)\<close> and \<^verbatim>\<open>f"{n}"\<close> for a non-negative integer: its decimal digits.\<close>

definition digit_char :: "nat \<Rightarrow> char" where
  "digit_char d = ''0123456789'' ! d"

fun str_nat :: "nat \<Rightarrow> string" where
  "str_nat n = (if n < 10 then [digit_char n] else str_nat (n div 10) @ [digit_char (n mod 10)])"

declare str_nat.simps [simp del]

subsection \<open>The chart objects\<close>

text \<open>
  The matplotlib objects the function builds, with the properties it sets. A bar is
  the rectangle \<^verbatim>\<open>ax.bar\<close> makes: \<^verbatim>\<open>get_x()\<close> is its left edge.
\<close>

record bar =
  bar_x :: real
  bar_width :: real
  bar_height :: real
  bar_color :: string
  bar_edgecolor :: string
  bar_linewidth :: real

record annotation =
  ann_text :: string
  ann_xy :: "real \<times> real"
  ann_xytext :: "real \<times> real"
  ann_textcoords :: string
  ann_ha :: string
  ann_va :: string
  ann_fontsize :: nat
  ann_color :: string

record axes =
  ax_bars :: "bar list"
  ax_xticks :: "nat list"
  ax_xticklabels :: "string list"
  ax_xticklabels_ha :: string
  ax_yscale :: string
  ax_xlabel :: "string \<times> nat"
  ax_ylabel :: "string \<times> nat"
  ax_title :: "string \<times> nat \<times> string"
  ax_grid :: "(bool \<times> string \<times> string \<times> string \<times> real) option"
  ax_spine_top :: bool
  ax_spine_right :: bool
  ax_annotations :: "annotation list"

record figure =
  fig_number :: nat
  fig_figsize :: "nat \<times> nat"
  fig_dpi :: nat
  fig_axes :: axes
  fig_tight :: bool

subsection \<open>The host and the state of the process\<close>

text \<open>
  What the host decides:
  \<^item> \<open>random_source\<close>: the doubles numpy's global generator hands out, in order;
  \<^item> \<open>format_float spec x\<close>: Python's \<^verbatim>\<open>format(x, spec)\<close> on a float;
  \<^item> \<open>style_library\<close>: the style sheets matplotlib can find, each a set of settings;
  \<^item> \<open>savefig_raises path\<close>: the exception \<^verbatim>\<open>fig.savefig(path, ...)\<close> raises, if any;
  \<^item> \<open>show_result figs\<close>: what \<^verbatim>\<open>plt.show()\<close> does with the open figures \<open>figs\<close>: it
    raises, or it returns the figures it presented and the figures still registered
    afterwards. A GUI backend presents them all and returns when the user has
    dismissed the windows, which are then gone from the registry; a non-GUI backend
    returns at once, having presented nothing and closed nothing.
\<close>

record env =
  random_source :: "nat \<Rightarrow> real"
  format_float :: "string \<Rightarrow> real \<Rightarrow> string"
  style_library :: "string \<rightharpoonup> (string \<rightharpoonup> string)"
  savefig_raises :: "string \<Rightarrow> error option"
  show_result :: "nat list \<Rightarrow> error + nat list \<times> nat list"

text \<open>
  The state the function reads and writes:
  \<^item> \<open>rng_pos\<close>: how many doubles the global generator has handed out;
  \<^item> \<open>stdout\<close>: the lines printed so far;
  \<^item> \<open>rcParams\<close>: matplotlib's process-wide settings, which a style sheet overrides;
  \<^item> \<open>open_figs\<close>: the numbers of the figures pyplot has registered (not closed);
  \<^item> \<open>files\<close>: the file system, as far as \<^verbatim>\<open>savefig\<close> writes it: the figure saved at a
    path and the \<^verbatim>\<open>bbox_inches\<close> it was saved with;
  \<^item> \<open>shown\<close>: one entry per completed \<^verbatim>\<open>plt.show()\<close>, with the figures it presented
    (none on a non-GUI backend).
\<close>

record world =
  rng_pos :: nat
  stdout :: "string list"
  rcParams :: "string \<rightharpoonup> string"
  open_figs :: "nat list"
  files :: "string \<rightharpoonup> (figure \<times> string)"
  shown :: "nat list list"

subsection \<open>Library calls\<close>

text \<open>
  \<^verbatim>\<open>np.random.rand(n, d)\<close>: an array of shape \<open>(n, d)\<close> filled in row-major order with
  the next \<open>n * d\<close> doubles of the generator.
\<close>

definition rand_block :: "(nat \<Rightarrow> real) \<Rightarrow> nat \<Rightarrow> nat \<Rightarrow> nat \<Rightarrow> real list list" where
  "rand_block src pos n d = map (\<lambda>i. map (\<lambda>j. src (pos + i * d + j)) [0..<d]) [0..<n]"

definition np_random_rand :: "env \<Rightarrow> nat \<Rightarrow> nat \<Rightarrow> world \<Rightarrow> real list list \<times> world" where
  "np_random_rand E n d w =
     (rand_block (random_source E) (rng_pos w) n d, w\<lparr>rng_pos := rng_pos w + n * d\<rparr>)"

definition print :: "string \<Rightarrow> world \<Rightarrow> world" where
  "print line w = w\<lparr>stdout := stdout w @ [line]\<rparr>"

text \<open>
  \<^verbatim>\<open>plt.style.use(name)\<close>: raises \<^verbatim>\<open>OSError\<close> when the style is not found; otherwise
  updates the process-wide \<^verbatim>\<open>rcParams\<close> with the settings of the sheet.
\<close>

definition style_use :: "env \<Rightarrow> string \<Rightarrow> world \<Rightarrow> (error + unit) \<times> world" where
  "style_use E name w =
     (case style_library E name of
        None \<Rightarrow> (Inl OSError, w)
      | Some sheet \<Rightarrow> (Inr (), w\<lparr>rcParams := rcParams w ++ sheet\<rparr>))"

text \<open>
  \<^verbatim>\<open>plt.subplots(figsize=..., dpi=...)\<close>: a new figure with one empty axes, registered
  with pyplot under the next free number (\<^verbatim>\<open>max(allnums) + 1\<close>, or 1).
\<close>

definition next_fignum :: "nat list \<Rightarrow> nat" where
  "next_fignum nums = fold max nums 0 + 1"

definition empty_axes :: axes where
  "empty_axes =
     \<lparr>ax_bars = [], ax_xticks = [], ax_xticklabels = [], ax_xticklabels_ha = ''center'',
      ax_yscale = ''linear'', ax_xlabel = ('''', 10), ax_ylabel = ('''', 10),
      ax_title = ('''', 12, ''normal''), ax_grid = None, ax_spine_top = True,
      ax_spine_right = True, ax_annotations = []\<rparr>"

definition subplots :: "nat \<times> nat \<Rightarrow> nat \<Rightarrow> world \<Rightarrow> (figure \<times> axes) \<times> world" where
  "subplots figsize dpi w =
     (let num = next_fignum (open_figs w);
          fig = \<lparr>fig_number = num, fig_figsize = figsize, fig_dpi = dpi,
                 fig_axes = empty_axes, fig_tight = False\<rparr>
      in ((fig, empty_axes), w\<lparr>open_figs := open_figs w @ [num]\<rparr>))"

text \<open>
  \<^verbatim>\<open>ax.bar(x, height, color=..., width=..., edgecolor=..., linewidth=...)\<close>: one
  centred rectangle per position; \<^verbatim>\<open>ValueError\<close> when the sequences cannot be
  broadcast to one length. It returns the rectangles and adds them to the axes.
\<close>

definition ax_bar ::
  "nat list \<Rightarrow> real list \<Rightarrow> string list \<Rightarrow> real \<Rightarrow> string \<Rightarrow> real \<Rightarrow> axes \<Rightarrow> error + (bar list \<times> axes)" where
  "ax_bar x height color width edgecolor linewidth ax =
     (if length x \<noteq> length height \<or> length x \<noteq> length color then Inl ValueError
      else
        (let bars = map (\<lambda>(xi, hi, ci).
                      \<lparr>bar_x = real xi - width / 2, bar_width = width, bar_height = hi,
                       bar_color = ci, bar_edgecolor = edgecolor, bar_linewidth = linewidth\<rparr>)
                    (zip x (zip height color))
         in Inr (bars, ax\<lparr>ax_bars := ax_bars ax @ bars\<rparr>)))"

text \<open>
  \<^verbatim>\<open>os.path.splitext(path)[1]\<close>, which \<^verbatim>\<open>savefig\<close> reads the format from: the part of the
  last path component from its last dot on, when a character other than a dot
  comes before that dot in the component; empty otherwise.
\<close>

definition path_ext :: "string \<Rightarrow> string" where
  "path_ext path =
     (let name = rev (takeWhile (\<lambda>c. c \<noteq> CHR ''/'') (rev path));
          after_dot = takeWhile (\<lambda>c. c \<noteq> CHR ''.'') (rev name);
          upto_dot = dropWhile (\<lambda>c. c \<noteq> CHR ''.'') (rev name)
      in if upto_dot = [] then []
         else if list_all (\<lambda>c. c = CHR ''.'') (tl upto_dot) then []
         else CHR ''.'' # rev after_dot)"

text \<open>
  The file \<^verbatim>\<open>fig.savefig(path)\<close> writes when no \<^verbatim>\<open>format\<close> is passed: \<open>path\<close> itself when
  it has an extension; otherwise \<^verbatim>\<open>path.rstrip('.') + '.' + format\<close> with the default
  format, \<^verbatim>\<open>rcParams["savefig.format"]\<close>, which is \<^verbatim>\<open>png\<close> unless set.
\<close>

definition default_filetype :: "(string \<rightharpoonup> string) \<Rightarrow> string" where
  "default_filetype rc = (case rc ''savefig.format'' of None \<Rightarrow> ''png'' | Some f \<Rightarrow> f)"

definition savefig_filename :: "(string \<rightharpoonup> string) \<Rightarrow> string \<Rightarrow> string" where
  "savefig_filename rc path =
     (if drop 1 (path_ext path) = []
      then rev (dropWhile (\<lambda>c. c = CHR ''.'') (rev path)) @ ''.'' @ default_filetype rc
      else path)"

text \<open>
  \<^verbatim>\<open>fig.savefig(path, bbox_inches=...)\<close>: raises what the host says, or writes the
  figure in the file named after \<open>path\<close>.
\<close>

definition savefig :: "env \<Rightarrow> figure \<Rightarrow> string \<Rightarrow> string \<Rightarrow> world \<Rightarrow> (error + unit) \<times> world" where
  "savefig E fig path bbox_inches w =
     (case savefig_raises E path of
        Some e \<Rightarrow> (Inl e, w)
      | None \<Rightarrow>
          (Inr (), w\<lparr>files := (files w)(savefig_filename (rcParams w) path
                                            \<mapsto> (fig, bbox_inches))\<rparr>))"

text \<open>
  \<^verbatim>\<open>plt.show()\<close>: hands all open figures to the backend; raises when the backend
  does, and otherwise returns after the backend has presented what it presents.
\<close>

definition plt_show :: "env \<Rightarrow> world \<Rightarrow> (error + unit) \<times> world" where
  "plt_show E w =
     (case show_result E (open_figs w) of
        Inl e \<Rightarrow> (Inl e, w)
      | Inr (presented, remaining) \<Rightarrow>
          (Inr (), w\<lparr>shown := shown w @ [presented], open_figs := remaining\<rparr>))"

text \<open>\<^verbatim>\<open>plt.close(fig)\<close>: removes the figure from pyplot's registry.\<close>

definition plt_close :: "figure \<Rightarrow> world \<Rightarrow> world" where
  "plt_close fig w = w\<lparr>open_figs := removeAll (fig_number fig) (open_figs w)\<rparr>"

subsection \<open>The function\<close>

definition dimensions :: "nat list" where
  "dimensions = [2, 3, 192, 384, 768, 1536]"

text \<open>
  Lines 31 to 47, the loop \<^verbatim>\<open>for dim in dimensions\<close>. The accumulator is the triple of
  the lists \<^verbatim>\<open>ratios\<close>, \<^verbatim>\<open>min_dists\<close> and \<^verbatim>\<open>max_dists\<close>; \<^verbatim>\<open>append\<close> adds at the end. An
  exception leaves the loop with the state reached. The loop variable \<^verbatim>\<open>dim\<close> is
  \<open>dimn\<close> here (\<open>dim\<close> is a constant of HOL).
\<close>

definition dim_line :: "env \<Rightarrow> nat \<Rightarrow> real \<Rightarrow> real \<Rightarrow> real \<Rightarrow> string" where
  "dim_line E dimn min_dist max_dist ratio =
     ''Dimension: '' @ str_nat dimn @
     '', Min Distance: '' @ format_float E ''.6g'' min_dist @
     '', Max Distance: '' @ format_float E ''.6g'' max_dist @
     '', Ratio (Max/Min): '' @ format_float E ''.6g'' ratio"

fun dim_loop ::
  "env \<Rightarrow> nat list \<Rightarrow> real list \<times> real list \<times> real list \<Rightarrow> world
     \<Rightarrow> (error + real list \<times> real list \<times> real list) \<times> world" where
  "dim_loop E [] acc w = (Inr acc, w)"
| "dim_loop E (dimn # rest) (ratios, min_dists, max_dists) w =
     (let (vectors, w1) = np_random_rand E 1000 dimn w;
          dists = pdist vectors
      in case ndarray_min dists of
           Inl e \<Rightarrow> (Inl e, w1)
         | Inr min_dist \<Rightarrow>
             (case ndarray_max dists of
                Inl e \<Rightarrow> (Inl e, w1)
              | Inr max_dist \<Rightarrow>
                  (let min_dists' = min_dists @ [min_dist];
                       max_dists' = max_dists @ [max_dist];
                       eps = 1 / 10 ^ 12
                   in case float_truediv max_dist (min_dist + eps) of
                        Inl e \<Rightarrow> (Inl e, w1)
                      | Inr ratio \<Rightarrow>
                          dim_loop E rest (ratios @ [ratio], min_dists', max_dists')
                            (print (dim_line E dimn min_dist max_dist ratio) w1))))"

text \<open>
  Lines 54 to 77: the bars, the ticks, the scale, the labels, the grid, the spines
  and one annotation per bar, on the axes \<^verbatim>\<open>plt.subplots\<close> returned.
\<close>

definition bar_annotation :: "env \<Rightarrow> bar \<Rightarrow> real \<Rightarrow> annotation" where
  "bar_annotation E b yi =
     (let height = bar_height b
      in \<lparr>ann_text = format_float E ''.2e'' yi,
          ann_xy = (bar_x b + bar_width b / 2, height),
          ann_xytext = (0, 6), ann_textcoords = ''offset points'',
          ann_ha = ''center'', ann_va = ''bottom'', ann_fontsize = 9,
          ann_color = ''#034e7b''\<rparr>)"

definition draw_chart :: "env \<Rightarrow> real list \<Rightarrow> axes \<Rightarrow> error + axes" where
  "draw_chart E ratios ax0 =
     (let x = [0..<length dimensions];
          bar_colors = replicate (length x) ''#2b8cbe''
      in case ax_bar x ratios bar_colors (6 / 10) ''#204d74'' (8 / 10) ax0 of
           Inl e \<Rightarrow> Inl e
         | Inr (bars, ax1) \<Rightarrow>
             (let ax2 = ax1\<lparr>ax_xticks := x\<rparr>;
                  ax3 = ax2\<lparr>ax_xticklabels := map str_nat dimensions,
                            ax_xticklabels_ha := ''right''\<rparr>;
                  ax4 = ax3\<lparr>ax_yscale := ''log''\<rparr>;
                  ax5 = ax4\<lparr>ax_xlabel := (''Dimension'', 14)\<rparr>;
                  ax6 = ax5\<lparr>ax_ylabel :=
                              (''Max / Min pairwise distance ratio (log scale)'', 12)\<rparr>;
                  ax7 = ax6\<lparr>ax_title :=
                              (''Curse of Dimensionality: Max/Min Distance Ratio vs Dimension'',
                               14, ''bold'')\<rparr>;
                  ax8 = ax7\<lparr>ax_grid := Some (True, ''both'', ''y'', ''--'', 6 / 10)\<rparr>;
                  ax9 = ax8\<lparr>ax_spine_top := False\<rparr>;
                  ax10 = ax9\<lparr>ax_spine_right := False\<rparr>
              in Inr (ax10\<lparr>ax_annotations :=
                              ax_annotations ax10 @
                              map (\<lambda>(b, yi). bar_annotation E b yi) (zip bars ratios)\<rparr>)))"

text \<open>
  Lines 81 to 89: save, show, close, return. \<^verbatim>\<open>if save_path:\<close> on a value that is
  \<^verbatim>\<open>None\<close> or a string: \<^verbatim>\<open>None\<close> and the empty string are false. The figure \<^verbatim>\<open>fig\<close> is
  the one \<^verbatim>\<open>plt.subplots\<close> made current, with the axes drawn and \<^verbatim>\<open>plt.tight_layout()\<close>
  applied.
\<close>

definition save_step :: "env \<Rightarrow> string option \<Rightarrow> figure \<Rightarrow> world \<Rightarrow> (error + unit) \<times> world" where
  "save_step E save_path fig w =
     (case save_path of
        None \<Rightarrow> (Inr (), w)
      | Some p \<Rightarrow>
          if p = [] then (Inr (), w)
          else (case savefig E fig p ''tight'' w of
                  (Inl e, w1) \<Rightarrow> (Inl e, w1)
                | (Inr u, w1) \<Rightarrow> (Inr (), print (''Saved plot to '' @ p) w1)))"

definition show_step :: "env \<Rightarrow> bool \<Rightarrow> world \<Rightarrow> (error + unit) \<times> world" where
  "show_step E show w = (if show then plt_show E w else (Inr (), w))"

definition save_show_close ::
  "env \<Rightarrow> string option \<Rightarrow> bool \<Rightarrow> figure \<Rightarrow> axes \<Rightarrow> world
     \<Rightarrow> (error + figure \<times> axes) \<times> world" where
  "save_show_close E save_path show fig ax w =
     (case save_step E save_path fig w of
        (Inl e, w2) \<Rightarrow> (Inl e, w2)
      | (Inr u, w2) \<Rightarrow>
          (case show_step E show w2 of
             (Inl e, w3) \<Rightarrow> (Inl e, w3)
           | (Inr u, w3) \<Rightarrow> (Inr (fig, ax), plt_close fig w3)))"

text \<open>The function, lines 9 to 89.\<close>

definition exp_curse_of_dimensionality ::
  "env \<Rightarrow> string option \<Rightarrow> bool \<Rightarrow> world \<Rightarrow> (error + figure \<times> axes) \<times> world" where
  "exp_curse_of_dimensionality E save_path show w =
     (case dim_loop E dimensions ([], [], []) w of
        (Inl e, w1) \<Rightarrow> (Inl e, w1)
      | (Inr (ratios, min_dists, max_dists), w1) \<Rightarrow>
          (case style_use E ''seaborn-v0_8'' w1 of
             (Inl e, w2) \<Rightarrow> (Inl e, w2)
           | (Inr u, w2) \<Rightarrow>
               (let ((fig0, ax0), w3) = subplots (11, 6) 150 w2
                in case draw_chart E ratios ax0 of
                     Inl e \<Rightarrow> (Inl e, w3)
                   | Inr ax \<Rightarrow>
                       (let fig = fig0\<lparr>fig_axes := ax, fig_tight := True\<rparr>
                        in save_show_close E save_path show fig ax w3))))"

text \<open>
  The defaults of the signature, \<^verbatim>\<open>save_path: str | None = None, show: bool = True\<close>,
  and a call that may leave either argument out.
\<close>

definition default_save_path :: "string option" where
  "default_save_path = None"

definition default_show :: bool where
  "default_show = True"

definition call_exp ::
  "env \<Rightarrow> string option option \<Rightarrow> bool option \<Rightarrow> world
     \<Rightarrow> (error + figure \<times> axes) \<times> world" where
  "call_exp E save_path_arg show_arg w =
     exp_curse_of_dimensionality E
       (case save_path_arg of None \<Rightarrow> default_save_path | Some p \<Rightarrow> p)
       (case show_arg of None \<Rightarrow> default_show | Some b \<Rightarrow> b) w"

text \<open>
  Lines 91 and 92, the script's entry point: the function called with no argument,
  its result dropped.
\<close>

definition main :: "env \<Rightarrow> world \<Rightarrow> (error + unit) \<times> world" where
  "main E w =
     (case call_exp E None None w of
        (Inl e, w') \<Rightarrow> (Inl e, w')
      | (Inr r, w') \<Rightarrow> (Inr (), w'))"

subsection \<open>The specification's Distance Reducer\<close>

text \<open>
  The reducer as the specification words it, to compare the loop with: the Euclidean
  norm of the coordinate differences, over every unordered pair of the sample's
  vectors; the minimum, the maximum, and the maximum over the minimum plus
  \<open>\<epsilon> = 1e-12\<close>.
\<close>

definition spec_distance :: "real list \<Rightarrow> real list \<Rightarrow> real" where
  "spec_distance u v = sqrt (\<Sum>k<length u. (u ! k - v ! k)\<^sup>2)"

definition spec_pairwise_distances :: "real list list \<Rightarrow> real set" where
  "spec_pairwise_distances X = {spec_distance (X ! i) (X ! j) | i j. i < j \<and> j < length X}"

definition spec_epsilon :: real where
  "spec_epsilon = 1 / 10 ^ 12"

definition spec_reducer :: "real list list \<Rightarrow> real \<times> real \<times> real" where
  "spec_reducer X =
     (Min (spec_pairwise_distances X), Max (spec_pairwise_distances X),
      Max (spec_pairwise_distances X) / (Min (spec_pairwise_distances X) + spec_epsilon))"

text \<open>
  The sample sets the loop draws, in order: the one for the \<open>i\<close>-th dimension starts
  where the one before it ended in the generator's sequence.
\<close>

fun samples :: "env \<Rightarrow> nat \<Rightarrow> nat list \<Rightarrow> real list list list" where
  "samples E pos [] = []"
| "samples E pos (d # ds) =
     rand_block (random_source E) pos 1000 d # samples E (pos + 1000 * d) ds"

text \<open>A sample set is rectangular when all its vectors have one length, as the rows of an array do.\<close>

definition rectangular :: "real list list \<Rightarrow> bool" where
  "rectangular X = (\<exists>d. map length X = replicate (length X) d)"

subsection \<open>Names for what a run computes\<close>

text \<open>
  The lists the loop leaves in \<^verbatim>\<open>ratios\<close>, \<^verbatim>\<open>min_dists\<close> and \<^verbatim>\<open>max_dists\<close>, the state after
  the loop, the axes the drawing code produces from the ratios, and the figure that
  is saved, shown, closed and returned.
\<close>

definition loop_result :: "env \<Rightarrow> world \<Rightarrow> real list \<times> real list \<times> real list" where
  "loop_result E w =
     (case fst (dim_loop E dimensions ([], [], []) w) of
        Inr acc \<Rightarrow> acc
      | Inl e \<Rightarrow> ([], [], []))"

definition after_loop :: "env \<Rightarrow> world \<Rightarrow> world" where
  "after_loop E w = snd (dim_loop E dimensions ([], [], []) w)"

definition the_chart :: "env \<Rightarrow> world \<Rightarrow> axes" where
  "the_chart E w =
     (case draw_chart E (fst (loop_result E w)) empty_axes of
        Inr ax \<Rightarrow> ax
      | Inl e \<Rightarrow> empty_axes)"

definition the_figure :: "env \<Rightarrow> world \<Rightarrow> figure" where
  "the_figure E w =
     \<lparr>fig_number = next_fignum (open_figs w), fig_figsize = (11, 6), fig_dpi = 150,
      fig_axes = the_chart E w, fig_tight = True\<rparr>"

definition styled :: "env \<Rightarrow> (string \<rightharpoonup> string) \<Rightarrow> world \<Rightarrow> world" where
  "styled E sheet w =
     (after_loop E w)\<lparr>rcParams := rcParams w ++ sheet,
                      open_figs := open_figs w @ [next_fignum (open_figs w)]\<rparr>"

subsection \<open>Example hosts\<close>

text \<open>
  A host whose generator hands out \<open>2\<^sup>-\<^sup>5\<^sup>3\<close> first (the smallest positive value
  \<^verbatim>\<open>np.random.rand\<close> can return) and zeros afterwards, where the style sheet exists,
  every path can be written but \<^verbatim>\<open>/no/such/dir/plot.png\<close>, and a GUI backend presents
  every open figure until the user dismisses it; a host like it whose display
  raises; one with a non-GUI backend; one whose generator hands out \<open>1/2\<close> first;
  and a fresh process.
\<close>

definition spike :: "real \<Rightarrow> nat \<Rightarrow> real" where
  "spike a k = (if k = 0 then a else 0)"

definition example_env :: env where
  "example_env =
     \<lparr>random_source = spike (1 / 2 ^ 53),
      format_float = (\<lambda>spec x. ''?''),
      style_library = [''seaborn-v0_8'' \<mapsto> [''axes.facecolor'' \<mapsto> ''#EAEAF2'']],
      savefig_raises = (\<lambda>path. if path = ''/no/such/dir/plot.png'' then Some OSError else None),
      show_result = (\<lambda>figs. Inr (figs, []))\<rparr>"

definition headless_env :: env where
  "headless_env = example_env\<lparr>show_result := (\<lambda>figs. Inl BackendError)\<rparr>"

definition agg_env :: env where
  "agg_env = example_env\<lparr>show_result := (\<lambda>figs. Inr ([], figs))\<rparr>"

definition spread_env :: env where
  "spread_env = example_env\<lparr>random_source := spike (1 / 2)\<rparr>"

definition example_world :: world where
  "example_world =
     \<lparr>rng_pos = 0, stdout = [], rcParams = [''axes.facecolor'' \<mapsto> ''white''],
      open_figs = [], files = Map.empty, shown = []\<rparr>"

section \<open>Facts about the numeric primitives\<close>

lemma length_pdist: "length (pdist X) = length X * (length X - 1) div 2"
proof (induction X)
  case Nil
  then show ?case by simp
next
  case (Cons u vs)
  have "even (length vs * (length vs - 1))" by (cases "length vs") auto
  then show ?case using Cons by (cases "length vs") (auto simp: algebra_simps)
qed

lemma set_pdist:
  "set (pdist X) = {euclidean (X ! i) (X ! j) | i j. i < j \<and> j < length X}"
proof (induction X)
  case Nil
  then show ?case by simp
next
  case (Cons u vs)
  show ?case (is "?L = ?R")
  proof (rule set_eqI)
    fix x
    show "x \<in> ?L \<longleftrightarrow> x \<in> ?R"
    proof
      assume "x \<in> ?L"
      then consider "x \<in> euclidean u ` set vs" | "x \<in> set (pdist vs)" by auto
      then show "x \<in> ?R"
      proof cases
        case 1
        then obtain k where "k < length vs" "x = euclidean u (vs ! k)"
          by (auto simp: in_set_conv_nth)
        then have "x = euclidean ((u # vs) ! 0) ((u # vs) ! Suc k) \<and> 0 < Suc k \<and> Suc k < length (u # vs)"
          by simp
        then show ?thesis by blast
      next
        case 2
        then obtain i j where "x = euclidean (vs ! i) (vs ! j)" "i < j" "j < length vs"
          using Cons.IH by auto
        then have "x = euclidean ((u # vs) ! Suc i) ((u # vs) ! Suc j) \<and> Suc i < Suc j \<and> Suc j < length (u # vs)"
          by simp
        then show ?thesis by blast
      qed
    next
      assume "x \<in> ?R"
      then obtain i j where ij: "x = euclidean ((u # vs) ! i) ((u # vs) ! j)" "i < j" "j < length (u # vs)"
        by auto
      then obtain j' where j': "j = Suc j'" "j' < length vs" by (cases j) auto
      show "x \<in> ?L"
      proof (cases i)
        case 0
        with ij j' have "x = euclidean u (vs ! j')" by simp
        with j' show ?thesis by auto
      next
        case (Suc i')
        with ij j' have "x = euclidean (vs ! i') (vs ! j')" "i' < j'" by auto
        with j' have "x \<in> set (pdist vs)" using Cons.IH by auto
        then show ?thesis by simp
      qed
    qed
  qed
qed

lemma fold_min_Min: "fold min xs (x::real) = Min (set (x # xs))"
  by (rule Min.set_eq_fold [symmetric])

lemma fold_max_Max: "fold max xs (x::real) = Max (set (x # xs))"
  by (rule Max.set_eq_fold [symmetric])

lemma ndarray_min_Min: "xs \<noteq> [] \<Longrightarrow> ndarray_min xs = Inr (Min (set xs))"
proof (cases xs)
  case Nil
  assume "xs \<noteq> []"
  with Nil show ?thesis by simp
next
  case (Cons y ys)
  then show ?thesis by (simp only: ndarray_min.simps fold_min_Min)
qed

lemma ndarray_max_Max: "xs \<noteq> [] \<Longrightarrow> ndarray_max xs = Inr (Max (set xs))"
proof (cases xs)
  case Nil
  assume "xs \<noteq> []"
  with Nil show ?thesis by simp
next
  case (Cons y ys)
  then show ?thesis by (simp only: ndarray_max.simps fold_max_Max)
qed

lemma sum_list_zip_nth:
  "length u = length v \<Longrightarrow> (\<Sum>(a, b)\<leftarrow>zip u v. f a b) = (\<Sum>k<length u. f (u ! k) (v ! k))"
proof (induction u v rule: list_induct2)
  case Nil
  then show ?case by simp
next
  case (Cons x xs y ys)
  then show ?case by (simp add: sum.lessThan_Suc_shift del: sum.lessThan_Suc)
qed

lemma euclidean_spec_distance:
  "length u = length v \<Longrightarrow> euclidean u v = spec_distance u v"
  by (simp add: euclidean_def spec_distance_def sum_list_zip_nth [where f = "\<lambda>a b. (a - b)\<^sup>2"])

lemma euclidean_nonneg: "0 \<le> euclidean u v"
  unfolding euclidean_def by (rule real_sqrt_ge_zero, rule sum_list_nonneg) auto

section \<open>The loop\<close>

lemma length_rand_block: "length (rand_block src pos n d) = n"
  by (simp add: rand_block_def)

lemma length_rand_block_row: "i < n \<Longrightarrow> length (rand_block src pos n d ! i) = d"
  by (simp add: rand_block_def)

lemma pdist_nonempty: "2 \<le> length X \<Longrightarrow> pdist X \<noteq> []"
proof -
  assume "2 \<le> length X"
  then obtain u v vs where "X = u # v # vs" 
    by (cases X; cases "tl X") auto
  then show ?thesis by simp
qed

lemma rectangular_rand_block: "rectangular (rand_block src pos n d)"
  unfolding rectangular_def
  by (rule exI [of _ d]) (simp add: rand_block_def list_eq_iff_nth_eq)

lemma rectangular_nth:
  "rectangular X \<Longrightarrow> i < length X \<Longrightarrow> j < length X \<Longrightarrow> length (X ! i) = length (X ! j)"
proof -
  assume r: "rectangular X" and i: "i < length X" and j: "j < length X"
  from r obtain d where d: "map length X = replicate (length X) d"
    unfolding rectangular_def by blast
  have "length (X ! i) = map length X ! i" using i by simp
  also have "\<dots> = d" using i by (simp only: d nth_replicate)
  also have "d = map length X ! j" using j by (simp only: d nth_replicate)
  also have "\<dots> = length (X ! j)" using j by simp
  finally show ?thesis .
qed

lemma set_pdist_spec:
  assumes "rectangular X"
  shows "set (pdist X) = spec_pairwise_distances X"
proof -
  have "\<And>i j. i < j \<Longrightarrow> j < length X \<Longrightarrow> euclidean (X ! i) (X ! j) = spec_distance (X ! i) (X ! j)"
    using assms by (intro euclidean_spec_distance rectangular_nth) auto
  then show ?thesis
    unfolding set_pdist spec_pairwise_distances_def by (auto; metis)
qed

lemma min_pdist_nonneg:
  assumes "pdist X \<noteq> []"
  shows "0 \<le> Min (set (pdist X))"
proof -
  have "\<forall>x \<in> set (pdist X). 0 \<le> x"
    by (auto simp: set_pdist euclidean_nonneg)
  then show ?thesis using assms by simp
qed

lemma reducer_step:
  assumes n: "2 \<le> length X" and r: "rectangular X"
  shows "ndarray_min (pdist X) = Inr (fst (spec_reducer X))"
    and "ndarray_max (pdist X) = Inr (fst (snd (spec_reducer X)))"
    and "float_truediv (fst (snd (spec_reducer X))) (fst (spec_reducer X) + 1 / 10 ^ 12)
           = Inr (snd (snd (spec_reducer X)))"
proof -
  have ne: "pdist X \<noteq> []" using n by (rule pdist_nonempty)
  show "ndarray_min (pdist X) = Inr (fst (spec_reducer X))"
    using ne by (simp add: ndarray_min_Min set_pdist_spec [OF r] spec_reducer_def)
  show "ndarray_max (pdist X) = Inr (fst (snd (spec_reducer X)))"
    using ne by (simp add: ndarray_max_Max set_pdist_spec [OF r] spec_reducer_def)
  have "0 \<le> Min (spec_pairwise_distances X)"
    using min_pdist_nonneg [OF ne] by (simp only: set_pdist_spec [OF r])
  then have "Min (spec_pairwise_distances X) + 1 / 10 ^ 12 \<noteq> 0" by simp
  then show "float_truediv (fst (snd (spec_reducer X))) (fst (spec_reducer X) + 1 / 10 ^ 12)
           = Inr (snd (snd (spec_reducer X)))"
    by (simp add: float_truediv_def spec_reducer_def spec_epsilon_def)
qed

lemma length_samples: "length (samples E pos ds) = length ds"
  by (induction ds arbitrary: pos) simp_all

lemma dim_loop_eq:
  "dim_loop E ds (rs, mns, mxs) w =
     (Inr (rs @ map (\<lambda>X. snd (snd (spec_reducer X))) (samples E (rng_pos w) ds),
           mns @ map (\<lambda>X. fst (spec_reducer X)) (samples E (rng_pos w) ds),
           mxs @ map (\<lambda>X. fst (snd (spec_reducer X))) (samples E (rng_pos w) ds)),
      w\<lparr>rng_pos := rng_pos w + 1000 * sum_list ds,
        stdout := stdout w @
          map2 (\<lambda>d X. dim_line E d (fst (spec_reducer X)) (fst (snd (spec_reducer X)))
                        (snd (snd (spec_reducer X))))
            ds (samples E (rng_pos w) ds)\<rparr>)"
proof (induction ds arbitrary: rs mns mxs w)
  case Nil
  show ?case by simp
next
  case (Cons d ds)
  let ?X = "rand_block (random_source E) (rng_pos w) 1000 d"
  have n: "2 \<le> length ?X" by (simp add: length_rand_block)
  have r: "rectangular ?X" by (rule rectangular_rand_block)
  note st = reducer_step [OF n r]
  show ?case
    by (simp add: np_random_rand_def st st(3) [simplified] Cons.IH print_def algebra_simps)
qed

lemma loop_result_eq:
  "loop_result E w =
     (map (\<lambda>X. snd (snd (spec_reducer X))) (samples E (rng_pos w) dimensions),
      map (\<lambda>X. fst (spec_reducer X)) (samples E (rng_pos w) dimensions),
      map (\<lambda>X. fst (snd (spec_reducer X))) (samples E (rng_pos w) dimensions))"
  by (simp add: loop_result_def dim_loop_eq)

lemma dim_loop_result:
  "dim_loop E dimensions ([], [], []) w = (Inr (loop_result E w), after_loop E w)"
  by (simp add: loop_result_def after_loop_def dim_loop_eq)

lemma after_loop_eq:
  "after_loop E w =
     w\<lparr>rng_pos := rng_pos w + 1000 * sum_list dimensions,
       stdout := stdout w @
         map2 (\<lambda>d X. dim_line E d (fst (spec_reducer X)) (fst (snd (spec_reducer X)))
                       (snd (snd (spec_reducer X))))
           dimensions (samples E (rng_pos w) dimensions)\<rparr>"
  by (simp add: after_loop_def dim_loop_eq)

lemma samples_shape:
  "map (map length) (samples E pos ds) = map (\<lambda>d. replicate 1000 d) ds"
proof (induction ds arbitrary: pos)
  case Nil
  show ?case by simp
next
  case (Cons d ds)
  have "map length (rand_block (random_source E) pos 1000 d) = replicate 1000 d"
    by (simp add: list_eq_iff_nth_eq length_rand_block length_rand_block_row)
  with Cons show ?case by simp
qed

lemma samples_facts:
  "list_all (\<lambda>X. length X = 1000 \<and> rectangular X) (samples E pos ds)"
  by (induction ds arbitrary: pos) (simp_all add: length_rand_block rectangular_rand_block)

lemma samples_pdist:
  "list_all (\<lambda>X. length (pdist X) = 499500 \<and> set (pdist X) = spec_pairwise_distances X)
     (samples E pos ds)"
proof -
  have "length X = 1000 \<and> rectangular X \<Longrightarrow>
        length (pdist X) = 499500 \<and> set (pdist X) = spec_pairwise_distances X" for X
    by (simp add: length_pdist set_pdist_spec)
  then show ?thesis
    using samples_facts [of E pos ds] by (auto simp: list_all_iff)
qed

section \<open>The function as a whole\<close>

lemma after_loop_frame [simp]:
  "rcParams (after_loop E w) = rcParams w"
  "open_figs (after_loop E w) = open_figs w"
  "files (after_loop E w) = files w"
  "shown (after_loop E w) = shown w"
  by (simp_all add: after_loop_eq)

lemma length_loop_result:
  "length (fst (loop_result E w)) = length dimensions"
  "length (fst (snd (loop_result E w))) = length dimensions"
  "length (snd (snd (loop_result E w))) = length dimensions"
  by (simp_all add: loop_result_eq length_samples)

lemma map_mid_zip3:
  "length xs = length ys \<Longrightarrow> length xs = length zs \<Longrightarrow>
   map (\<lambda>(x, y, z). f y) (zip xs (zip ys zs)) = map f ys"
proof -
  assume l: "length xs = length ys" "length xs = length zs"
  have "map (\<lambda>(x, y, z). f y) (zip xs (zip ys zs)) = map f (map fst (map snd (zip xs (zip ys zs))))"
    by (simp add: case_prod_unfold comp_def)
  also have "map snd (zip xs (zip ys zs)) = zip ys zs" using l by simp
  also have "map fst (zip ys zs) = ys" using l by simp
  finally show ?thesis .
qed

lemma map_first_zip3:
  "length xs = length ys \<Longrightarrow> length xs = length zs \<Longrightarrow>
   map (\<lambda>(x, y, z). f x) (zip xs (zip ys zs)) = map f xs"
proof -
  assume l: "length xs = length ys" "length xs = length zs"
  have "map (\<lambda>(x, y, z). f x) (zip xs (zip ys zs)) = map f (map fst (zip xs (zip ys zs)))"
    by (simp add: case_prod_unfold comp_def)
  also have "map fst (zip xs (zip ys zs)) = xs" using l by simp
  finally show ?thesis .
qed

lemma draw_chart_Inr:
  assumes "length ratios = length dimensions"
  shows "\<exists>ax. draw_chart E ratios empty_axes = Inr ax \<and>
           map bar_height (ax_bars ax) = ratios \<and>
           map bar_x (ax_bars ax) = map (\<lambda>i. real i - 3 / 10) [0..<length dimensions] \<and>
           ax_xticks ax = [0..<length dimensions] \<and>
           ax_xticklabels ax = map str_nat dimensions"
proof -
  let ?x = "[0..<length dimensions]"
  let ?c = "replicate (length ?x) ''#2b8cbe''"
  have l: "length ?x = length ratios" "length ?x = length ?c" using assms by simp_all
  have h: "map (\<lambda>(xi, hi, ci). hi) (zip ?x (zip ratios ?c)) = ratios"
    using map_mid_zip3 [OF l, of "\<lambda>y. y"] by simp
  have x: "map (\<lambda>(xi, hi, ci). real xi - 3 / 10) (zip ?x (zip ratios ?c))
             = map (\<lambda>i. real i - 3 / 10) ?x"
    using map_first_zip3 [OF l, of "\<lambda>i. real i - 3 / 10"] by simp
  show ?thesis
    using assms h x
    by (simp add: draw_chart_def ax_bar_def Let_def empty_axes_def comp_def case_prod_unfold
          del: upt.simps)
qed

lemma draw_the_chart:
  "draw_chart E (fst (loop_result E w)) empty_axes = Inr (the_chart E w)"
proof -
  obtain ax where "draw_chart E (fst (loop_result E w)) empty_axes = Inr ax"
    using draw_chart_Inr [OF length_loop_result(1)] by blast
  then show ?thesis by (simp add: the_chart_def)
qed

lemma exp_unfold:
  "exp_curse_of_dimensionality E save_path show w =
     (case style_library E ''seaborn-v0_8'' of
        None \<Rightarrow> (Inl OSError, after_loop E w)
      | Some sheet \<Rightarrow>
          save_show_close E save_path show (the_figure E w) (the_chart E w) (styled E sheet w))"
proof -
  obtain ratios min_dists max_dists where lr: "loop_result E w = (ratios, min_dists, max_dists)"
    by (cases "loop_result E w") auto
  have dc: "draw_chart E ratios empty_axes = Inr (the_chart E w)"
    using draw_the_chart [of E w] by (simp add: lr)
  show ?thesis
    by (simp add: exp_curse_of_dimensionality_def dim_loop_result lr style_use_def
        subplots_def Let_def dc the_figure_def styled_def split: option.splits)
qed

lemmas run_defs =
  save_show_close_def save_step_def show_step_def savefig_def plt_show_def plt_close_def
  print_def styled_def

lemma save_show_close_Inr:
  assumes "fst (save_show_close E save_path show fig ax w) = Inr r"
  shows "r = (fig, ax) \<and> (\<exists>w3. snd (save_show_close E save_path show fig ax w) = plt_close fig w3)"
  using assms unfolding save_show_close_def
  by (auto split: prod.splits sum.splits)

section \<open>The loop on the example hosts\<close>

lemma nth_rand_block:
  "i < n \<Longrightarrow> rand_block src pos n d ! i = map (\<lambda>j. src (pos + i * d + j)) [0..<d]"
  by (simp add: rand_block_def)

lemma dist_rand_block:
  assumes "i < n" "j < n"
  shows "spec_distance (rand_block src pos n d ! i) (rand_block src pos n d ! j)
           = sqrt (\<Sum>k<d. (src (pos + i * d + k) - src (pos + j * d + k))\<^sup>2)"
  using assms by (simp add: spec_distance_def nth_rand_block)

lemma spike_far:
  assumes "0 < pos \<or> 0 < i" "i < j" "i < n" "j < n"
  shows "spec_distance (rand_block (spike a) pos n d ! i) (rand_block (spike a) pos n d ! j) = 0"
proof -
  have "(spike a (pos + i * d + k) - spike a (pos + j * d + k))\<^sup>2 = 0" if "k < d" for k
    using assms that by (auto simp: spike_def)
  then have "(\<Sum>k<d. (spike a (pos + i * d + k) - spike a (pos + j * d + k))\<^sup>2) = 0"
    by simp
  then show ?thesis using assms by (simp add: dist_rand_block)
qed

lemma spike_first:
  assumes "0 < j" "j < n" "0 < d" "0 \<le> a"
  shows "spec_distance (rand_block (spike a) 0 n d ! 0) (rand_block (spike a) 0 n d ! j) = a"
proof -
  have "(spike a (0 + 0 * d + k) - spike a (0 + j * d + k))\<^sup>2 = (if k = 0 then a\<^sup>2 else 0)"
    if "k < d" for k
    using assms that by (auto simp: spike_def)
  then have "(\<Sum>k<d. (spike a (0 + 0 * d + k) - spike a (0 + j * d + k))\<^sup>2)
               = (\<Sum>k<d. if k = 0 then a\<^sup>2 else 0)"
    by (intro sum.cong) auto
  also have "\<dots> = a\<^sup>2" using assms by (simp add: sum.delta')
  finally show ?thesis using assms by (simp add: dist_rand_block)
qed

lemma spike_block_later:
  assumes "0 < pos" "2 \<le> n"
  shows "spec_pairwise_distances (rand_block (spike a) pos n d) = {0}"
proof -
  let ?X = "rand_block (spike a) pos n d"
  have "spec_distance (?X ! 0) (?X ! 1) = 0"
    using assms by (intro spike_far) auto
  then have "\<exists>i j. 0 = spec_distance (?X ! i) (?X ! j) \<and> i < j \<and> j < n"
    using assms by (intro exI [of _ 0] exI [of _ 1]) simp
  then have "0 \<in> spec_pairwise_distances ?X"
    unfolding spec_pairwise_distances_def by (simp add: length_rand_block)
  moreover have "spec_pairwise_distances ?X \<subseteq> {0}"
    unfolding spec_pairwise_distances_def using assms
    by (auto simp: length_rand_block intro!: spike_far)
  ultimately show ?thesis by blast
qed

lemma spike_block_first:
  assumes "3 \<le> n" "0 < d" "0 \<le> a"
  shows "spec_pairwise_distances (rand_block (spike a) 0 n d) = {0, a}"
proof -
  let ?X = "rand_block (spike a) 0 n d"
  have d12: "spec_distance (?X ! 1) (?X ! 2) = 0"
    using assms by (intro spike_far) auto
  have d01: "spec_distance (?X ! 0) (?X ! 1) = a"
    using assms by (intro spike_first) auto
  have "\<exists>i j. 0 = spec_distance (?X ! i) (?X ! j) \<and> i < j \<and> j < n"
    using d12 assms by (intro exI [of _ 1] exI [of _ 2]) simp
  moreover have "\<exists>i j. a = spec_distance (?X ! i) (?X ! j) \<and> i < j \<and> j < n"
    using d01 assms by (intro exI [of _ 0] exI [of _ 1]) simp
  ultimately have "{0, a} \<subseteq> spec_pairwise_distances ?X"
    unfolding spec_pairwise_distances_def by (simp add: length_rand_block)
  moreover have "spec_pairwise_distances ?X \<subseteq> {0, a}"
  proof
    fix x assume "x \<in> spec_pairwise_distances ?X"
    then obtain i j where x: "x = spec_distance (?X ! i) (?X ! j)" "i < j" "j < n"
      unfolding spec_pairwise_distances_def by (auto simp: length_rand_block)
    show "x \<in> {0, a}"
    proof (cases "i = 0")
      case True
      with x assms have "x = a" by (simp add: spike_first)
      then show ?thesis by simp
    next
      case False
      with x have "x = 0" by (simp add: spike_far)
      then show ?thesis by simp
    qed
  qed
  ultimately show ?thesis by blast
qed

lemma spike_reducer_later:
  "0 < pos \<Longrightarrow> spec_reducer (rand_block (spike a) pos 1000 d) = (0, 0, 0)"
  by (simp add: spec_reducer_def spike_block_later)

lemma spike_reducer_first:
  "0 < d \<Longrightarrow> 0 \<le> a \<Longrightarrow>
   spec_reducer (rand_block (spike a) 0 1000 d) = (0, a, a / (1 / 10 ^ 12))"
  by (simp add: spec_reducer_def spike_block_first spec_epsilon_def)

lemma spike_loop:
  assumes "random_source E = spike a" "0 \<le> a" "rng_pos w = 0"
  shows "fst (dim_loop E dimensions ([], [], []) w) =
           Inr ([a / (1 / 10 ^ 12), 0, 0, 0, 0, 0], [0, 0, 0, 0, 0, 0], [a, 0, 0, 0, 0, 0])"
proof -
  have s: "samples E 0 dimensions =
             [rand_block (spike a) 0 1000 2, rand_block (spike a) 2000 1000 3,
              rand_block (spike a) 5000 1000 192, rand_block (spike a) 197000 1000 384,
              rand_block (spike a) 581000 1000 768, rand_block (spike a) 1349000 1000 1536]"
    by (simp add: dimensions_def assms(1))
  show ?thesis
    unfolding dim_loop_eq assms(3) s
    by (simp add: spike_reducer_later spike_reducer_first assms(2))
qed

lemma env_simps:
  "random_source example_env = spike (1 / 2 ^ 53)"
  "style_library example_env ''seaborn-v0_8'' = Some [''axes.facecolor'' \<mapsto> ''#EAEAF2'']"
  "savefig_raises example_env ''plot.png'' = None"
  "savefig_raises example_env ''plot'' = None"
  "savefig_raises example_env ''/no/such/dir/plot.png'' = Some OSError"
  "show_result example_env figs = Inr (figs, [])"
  "random_source headless_env = spike (1 / 2 ^ 53)"
  "style_library headless_env ''seaborn-v0_8'' = Some [''axes.facecolor'' \<mapsto> ''#EAEAF2'']"
  "show_result headless_env figs = Inl BackendError"
  "random_source agg_env = spike (1 / 2 ^ 53)"
  "style_library agg_env ''seaborn-v0_8'' = Some [''axes.facecolor'' \<mapsto> ''#EAEAF2'']"
  "show_result agg_env figs = Inr ([], figs)"
  "random_source spread_env = spike (1 / 2)"
  by (simp_all add: example_env_def headless_env_def agg_env_def spread_env_def)

lemma world_simps:
  "rng_pos example_world = 0" "stdout example_world = []"
  "rcParams example_world = [''axes.facecolor'' \<mapsto> ''white'']"
  "open_figs example_world = []" "files example_world = Map.empty" "shown example_world = []"
  by (simp_all add: example_world_def)

lemma sample_nth:
  assumes "i < length ds"
  shows "length (samples E pos ds ! i) = 1000 \<and> rectangular (samples E pos ds ! i)"
  using samples_facts [of E pos ds] assms
  by (simp add: list_all_length length_samples)

lemma sample_distances:
  assumes "i < length ds"
  shows "finite (spec_pairwise_distances (samples E pos ds ! i))"
    and "spec_pairwise_distances (samples E pos ds ! i) \<noteq> {}"
    and "\<forall>x \<in> spec_pairwise_distances (samples E pos ds ! i). 0 \<le> x"
proof -
  let ?X = "samples E pos ds ! i"
  have r: "rectangular ?X" and n: "2 \<le> length ?X" using sample_nth [OF assms, of E pos] by simp_all
  have eq: "spec_pairwise_distances ?X = set (pdist ?X)" by (simp add: set_pdist_spec [OF r])
  show "finite (spec_pairwise_distances ?X)" by (simp add: eq)
  show "spec_pairwise_distances ?X \<noteq> {}" using pdist_nonempty [OF n] by (simp add: eq)
  show "\<forall>x \<in> spec_pairwise_distances ?X. 0 \<le> x"
    unfolding eq by (auto simp: set_pdist euclidean_nonneg)
qed

lemmas example_simps = exp_unfold env_simps world_simps run_defs next_fignum_def the_figure_def

lemma map2_nth:
  "length xs = length ys \<Longrightarrow> map2 f xs ys = map (\<lambda>i. f (xs ! i) (ys ! i)) [0..<length xs]"
  by (rule nth_equalityI) auto

lemma stdout_after_loop:
  "stdout (after_loop E w) =
     stdout w @
     map (\<lambda>i. dim_line E (dimensions ! i) (fst (snd (loop_result E w)) ! i)
                 (snd (snd (loop_result E w)) ! i) (fst (loop_result E w) ! i))
       [0..<length dimensions]"
proof -
  let ?Xs = "samples E (rng_pos w) dimensions"
  have l: "length dimensions = length ?Xs" by (simp add: length_samples)
  have "map (\<lambda>i. dim_line E (dimensions ! i) (fst (snd (loop_result E w)) ! i)
                 (snd (snd (loop_result E w)) ! i) (fst (loop_result E w) ! i))
          [0..<length dimensions]
        = map (\<lambda>i. dim_line E (dimensions ! i) (fst (spec_reducer (?Xs ! i)))
                 (fst (snd (spec_reducer (?Xs ! i)))) (snd (snd (spec_reducer (?Xs ! i)))))
          [0..<length dimensions]"
    by (rule map_cong) (simp_all add: loop_result_eq length_samples)
  also have "\<dots> = map2 (\<lambda>d X. dim_line E d (fst (spec_reducer X)) (fst (snd (spec_reducer X)))
                       (snd (snd (spec_reducer X)))) dimensions ?Xs"
    by (rule map2_nth [OF l, symmetric])
  finally show ?thesis by (simp add: after_loop_eq)
qed

section \<open>The claims\<close>

text \<open>
  Claim C1. For every dimension processed, the loop computes the distances of all
  \<open>N (N - 1) / 2\<close> unordered pairs of the \<open>N = 1000\<close> sample vectors (\<open>pdist\<close> returns that
  many values, and they are the specification's pairwise Euclidean distances), takes
  their minimum and maximum, and appends to \<^verbatim>\<open>min_dists\<close>, \<^verbatim>\<open>max_dists\<close> and \<^verbatim>\<open>ratios\<close> the
  minimum, the maximum and the ratio \<open>max / (min + 1e-12)\<close>; the loop does not raise.
  The sample sets are the ones the generator produces for the dimensions, in order.
\<close>

theorem reducer_meets_spec:
  "fst (dim_loop E dimensions ([], [], []) w) =
     Inr (map (\<lambda>X. Max (spec_pairwise_distances X) / (Min (spec_pairwise_distances X) + 1 / 10 ^ 12))
            (samples E (rng_pos w) dimensions),
          map (\<lambda>X. Min (spec_pairwise_distances X)) (samples E (rng_pos w) dimensions),
          map (\<lambda>X. Max (spec_pairwise_distances X)) (samples E (rng_pos w) dimensions))
   \<and> list_all (\<lambda>X. length X = 1000 \<and> length (pdist X) = 1000 * (1000 - 1) div 2
                  \<and> set (pdist X) = spec_pairwise_distances X)
       (samples E (rng_pos w) dimensions)
   \<and> length (samples E (rng_pos w) dimensions) = length dimensions"
proof (intro conjI)
  show "fst (dim_loop E dimensions ([], [], []) w) =
     Inr (map (\<lambda>X. Max (spec_pairwise_distances X) / (Min (spec_pairwise_distances X) + 1 / 10 ^ 12))
            (samples E (rng_pos w) dimensions),
          map (\<lambda>X. Min (spec_pairwise_distances X)) (samples E (rng_pos w) dimensions),
          map (\<lambda>X. Max (spec_pairwise_distances X)) (samples E (rng_pos w) dimensions))"
    by (simp add: dim_loop_eq spec_reducer_def spec_epsilon_def)
  show "list_all (\<lambda>X. length X = 1000 \<and> length (pdist X) = 1000 * (1000 - 1) div 2
                  \<and> set (pdist X) = spec_pairwise_distances X)
       (samples E (rng_pos w) dimensions)"
    using samples_facts [of E "rng_pos w" dimensions] samples_pdist [of E "rng_pos w" dimensions]
    by (simp add: list_all_iff)
  show "length (samples E (rng_pos w) dimensions) = length dimensions"
    by (rule length_samples)
qed

text \<open>
  Claim C2, as the code has it. For every dimension the loop processes, the minimum
  distance is not negative and not above the maximum distance, and the ratio is at
  least 1 exactly when the maximum is at least the minimum plus \<open>1e-12\<close>: the \<open>\<epsilon>\<close> in
  the denominator is added always, so two distinct points are not enough for a
  ratio of at least 1.
\<close>

theorem ratio_floor:
  assumes "fst (dim_loop E dimensions ([], [], []) w) = Inr (ratios, min_dists, max_dists)"
    and "i < length dimensions"
  shows "0 \<le> min_dists ! i \<and> min_dists ! i \<le> max_dists ! i
       \<and> (1 \<le> ratios ! i) = (min_dists ! i + 1 / 10 ^ 12 \<le> max_dists ! i)"
proof -
  let ?D = "spec_pairwise_distances (samples E (rng_pos w) dimensions ! i)"
  note d = sample_distances [OF assms(2), of E "rng_pos w"]
  have mn: "min_dists ! i = Min ?D" and mx: "max_dists ! i = Max ?D"
    and r: "ratios ! i = Max ?D / (Min ?D + 1 / 10 ^ 12)"
    using assms by (auto simp: dim_loop_eq length_samples spec_reducer_def spec_epsilon_def)
  have 0: "0 \<le> Min ?D" using d by simp
  have le: "Min ?D \<le> Max ?D" using d by (simp add: Min_le_iff)
  have pos: "0 < Min ?D + 1 / 10 ^ 12" using 0 by simp
  have "(1 \<le> Max ?D / (Min ?D + 1 / 10 ^ 12)) = (Min ?D + 1 / 10 ^ 12 \<le> Max ?D)"
    using pos by (rule le_divide_eq_1_pos)
  with 0 le show ?thesis by (simp only: mn mx r)
qed

text \<open>
  Claim C2, an instance: on the host whose generator hands out \<open>1/2\<close> and then zeros,
  the first sample has minimum 0 and maximum \<open>1/2\<close>, and its ratio is at least 1.
\<close>

theorem ratio_floor_witness:
  "fst (dim_loop spread_env dimensions ([], [], []) example_world) =
     Inr ([(1 / 2) / (1 / 10 ^ 12), 0, 0, 0, 0, 0], [0, 0, 0, 0, 0, 0], [1 / 2, 0, 0, 0, 0, 0])
   \<and> (0::nat) < length dimensions
   \<and> (1::real) \<le> [(1 / 2) / (1 / 10 ^ 12), 0, 0, 0, 0, 0] ! 0"
proof -
  have h: "fst (dim_loop spread_env dimensions ([], [], []) example_world) =
     Inr ([(1 / 2) / (1 / 10 ^ 12), 0, 0, 0, 0, 0], [0, 0, 0, 0, 0, 0], [1 / 2, 0, 0, 0, 0, 0])"
    by (rule spike_loop) (simp_all add: env_simps world_simps)
  have l: "(0::nat) < length dimensions" by (simp add: dimensions_def)
  from ratio_floor [OF h l] h l show ?thesis by simp
qed

text \<open>
  Claim C2 as stated fails. On the host whose generator hands out \<open>2\<^sup>-\<^sup>5\<^sup>3\<close> and then
  zeros, the sample for dimension 2 has two distinct points (its first and second
  vector differ), its minimum distance is 0, its maximum \<open>2\<^sup>-\<^sup>5\<^sup>3\<close>, and the ratio the
  loop computes for it is \<open>2\<^sup>-\<^sup>5\<^sup>3 / 1e-12\<close>, which is below 1.
\<close>

theorem ratio_below_one_example:
  "samples example_env (rng_pos example_world) dimensions ! 0 ! 0
     \<noteq> samples example_env (rng_pos example_world) dimensions ! 0 ! 1
   \<and> fst (dim_loop example_env dimensions ([], [], []) example_world) =
       Inr ([(1 / 2 ^ 53) / (1 / 10 ^ 12), 0, 0, 0, 0, 0], [0, 0, 0, 0, 0, 0],
            [1 / 2 ^ 53, 0, 0, 0, 0, 0])
   \<and> ((1 / 2 ^ 53) / (1 / 10 ^ 12) :: real) < 1"
proof (intro conjI)
  show "samples example_env (rng_pos example_world) dimensions ! 0 ! 0
     \<noteq> samples example_env (rng_pos example_world) dimensions ! 0 ! 1"
    by (simp add: dimensions_def env_simps world_simps nth_rand_block spike_def)
  show "fst (dim_loop example_env dimensions ([], [], []) example_world) =
       Inr ([(1 / 2 ^ 53) / (1 / 10 ^ 12), 0, 0, 0, 0, 0], [0, 0, 0, 0, 0, 0],
            [1 / 2 ^ 53, 0, 0, 0, 0, 0])"
    by (rule spike_loop) (simp_all add: env_simps world_simps)
  show "((1 / 2 ^ 53) / (1 / 10 ^ 12) :: real) < 1" by simp
qed

text \<open>
  Claim C3, as the code has it. Once the figure exists (the style sheet was found),
  the figure is still registered with pyplot when the call ends exactly when the
  call raised: it is closed on every normal return, whether saving and showing ran
  or were skipped, and it is left open when \<^verbatim>\<open>savefig\<close> or \<^verbatim>\<open>plt.show\<close> raises, since
  \<^verbatim>\<open>plt.close(fig)\<close> is the last statement before \<^verbatim>\<open>return\<close> and nothing catches.
\<close>

theorem figure_left_open_iff_raised:
  assumes "style_library E ''seaborn-v0_8'' = Some sheet"
  shows "(fig_number (the_figure E w)
            \<in> set (open_figs (snd (exp_curse_of_dimensionality E save_path show w))))
         = isl (fst (exp_curse_of_dimensionality E save_path show w))"
  using assms
  by (auto simp: exp_unfold run_defs the_figure_def split: option.splits sum.splits prod.splits if_splits)

text \<open>
  Claim C3, an instance: with saving and showing skipped the call returns and the
  figure is closed.
\<close>

theorem figure_left_open_iff_raised_witness:
  "style_library example_env ''seaborn-v0_8'' = Some [''axes.facecolor'' \<mapsto> ''#EAEAF2'']
   \<and> \<not> isl (fst (exp_curse_of_dimensionality example_env None False example_world))
   \<and> fig_number (the_figure example_env example_world)
        \<notin> set (open_figs (snd (exp_curse_of_dimensionality example_env None False example_world)))"
proof -
  have s: "style_library example_env ''seaborn-v0_8'' = Some [''axes.facecolor'' \<mapsto> ''#EAEAF2'']"
    by (simp add: env_simps)
  have r: "\<not> isl (fst (exp_curse_of_dimensionality example_env None False example_world))"
    by (simp add: example_simps)
  from figure_left_open_iff_raised [OF s, of example_world None False] s r
  show ?thesis by simp
qed

text \<open>
  Claim C3 as stated fails. When \<^verbatim>\<open>savefig\<close> raises (a path that cannot be written), and
  when \<^verbatim>\<open>plt.show\<close> raises (a host without a display), the exception reaches the caller
  with figure 1 still open.
\<close>

theorem figure_left_open_example:
  "fst (exp_curse_of_dimensionality example_env (Some ''/no/such/dir/plot.png'') False example_world)
     = Inl OSError
   \<and> open_figs (snd (exp_curse_of_dimensionality example_env (Some ''/no/such/dir/plot.png'')
        False example_world)) = [1]
   \<and> fst (exp_curse_of_dimensionality headless_env None True example_world) = Inl BackendError
   \<and> open_figs (snd (exp_curse_of_dimensionality headless_env None True example_world)) = [1]"
  by (simp add: example_simps)

text \<open>
  Claim C4. When the minimum distance of a sample is exactly 0, the ratio the loop
  computes is the maximum distance divided by \<open>1e-12\<close>; the loop returns its three lists
  and does not raise. For any array of vectors at all, whatever its size, the
  divisor \<open>min_dist + 1e-12\<close> is not zero when \<^verbatim>\<open>dists.min()\<close> returned, so the division
  returns the quotient and never raises \<^verbatim>\<open>ZeroDivisionError\<close>.
\<close>

theorem epsilon_guard:
  "(\<exists>ratios min_dists max_dists.
      fst (dim_loop E dimensions ([], [], []) w) = Inr (ratios, min_dists, max_dists)
      \<and> (\<forall>i<length dimensions. min_dists ! i = 0 \<longrightarrow> ratios ! i = max_dists ! i / (1 / 10 ^ 12)))
   \<and> (\<forall>mn. ndarray_min (pdist X) = Inr mn \<longrightarrow>
          float_truediv mx (mn + 1 / 10 ^ 12) = Inr (mx / (mn + 1 / 10 ^ 12)))"
proof (intro conjI allI impI)
  show "\<exists>ratios min_dists max_dists.
      fst (dim_loop E dimensions ([], [], []) w) = Inr (ratios, min_dists, max_dists)
      \<and> (\<forall>i<length dimensions. min_dists ! i = 0 \<longrightarrow> ratios ! i = max_dists ! i / (1 / 10 ^ 12))"
    by (auto simp: dim_loop_eq length_samples spec_reducer_def spec_epsilon_def)
next
  fix mn assume m: "ndarray_min (pdist X) = Inr mn"
  then have ne: "pdist X \<noteq> []" by (cases "pdist X") auto
  with m have "mn = Min (set (pdist X))" by (simp add: ndarray_min_Min)
  with min_pdist_nonneg [OF ne] have "0 \<le> mn" by simp
  then have "mn + 1 / 10 ^ 12 \<noteq> 0" by simp
  then show "float_truediv mx (mn + 1 / 10 ^ 12) = Inr (mx / (mn + 1 / 10 ^ 12))"
    by (simp add: float_truediv_def)
qed

text \<open>
  Claim C4, an instance: on the host whose generator hands out \<open>2\<^sup>-\<^sup>5\<^sup>3\<close> and then
  zeros, the first sample has duplicate points, minimum 0 and a positive maximum, and
  the ratio is that maximum over \<open>1e-12\<close>; and three vectors of which two coincide.
\<close>

theorem epsilon_guard_witness:
  "(\<exists>ratios min_dists max_dists.
      fst (dim_loop example_env dimensions ([], [], []) example_world)
        = Inr (ratios, min_dists, max_dists)
      \<and> min_dists ! 0 = 0 \<and> 0 < max_dists ! 0 \<and> ratios ! 0 = max_dists ! 0 / (1 / 10 ^ 12))
   \<and> ndarray_min (pdist [[0], [0], [1]]) = Inr 0
   \<and> float_truediv 1 (0 + 1 / 10 ^ 12) = Inr (1 / (0 + 1 / 10 ^ 12))"
proof -
  have h: "fst (dim_loop example_env dimensions ([], [], []) example_world) =
       Inr ([(1 / 2 ^ 53) / (1 / 10 ^ 12), 0, 0, 0, 0, 0], [0, 0, 0, 0, 0, 0],
            [1 / 2 ^ 53, 0, 0, 0, 0, 0])"
    by (rule spike_loop) (simp_all add: env_simps world_simps)
  have l: "(0::nat) < length dimensions" by (simp add: dimensions_def)
  have m: "ndarray_min (pdist [[0], [0], [1]]) = Inr 0" by (simp add: euclidean_def)
  from epsilon_guard [of example_env example_world "[[0], [0], [1]]" 1] h l m
  show ?thesis by auto
qed

text \<open>
  Claim C5. The loop returns normally with a list of ratios of length 6, the length
  of the dimension list \<open>[2, 3, 192, 384, 768, 1536]\<close>; the ratio at index \<open>i\<close> is the one
  of the \<open>i\<close>-th sample drawn, which consists of 1000 vectors of the \<open>i\<close>-th dimension;
  and the chart keeps the alignment: bar \<open>i\<close> stands at position \<open>i\<close>, has the \<open>i\<close>-th
  ratio as its height and the \<open>i\<close>-th dimension as its tick label.
\<close>

theorem ratios_aligned:
  "fst (dim_loop E dimensions ([], [], []) w) = Inr (loop_result E w)
   \<and> dimensions = [2, 3, 192, 384, 768, 1536]
   \<and> length (fst (loop_result E w)) = 6
   \<and> fst (loop_result E w)
       = map (\<lambda>X. Max (spec_pairwise_distances X) / (Min (spec_pairwise_distances X) + 1 / 10 ^ 12))
           (samples E (rng_pos w) dimensions)
   \<and> map (map length) (samples E (rng_pos w) dimensions) = map (replicate 1000) dimensions
   \<and> (\<exists>ax. draw_chart E (fst (loop_result E w)) empty_axes = Inr ax
         \<and> map bar_height (ax_bars ax) = fst (loop_result E w)
         \<and> map bar_x (ax_bars ax) = map (\<lambda>i. real i - 3 / 10) [0..<6]
         \<and> ax_xticks ax = [0..<6]
         \<and> ax_xticklabels ax = [''2'', ''3'', ''192'', ''384'', ''768'', ''1536''])"
proof (intro conjI)
  show "fst (dim_loop E dimensions ([], [], []) w) = Inr (loop_result E w)"
    by (simp add: dim_loop_result)
  show "dimensions = [2, 3, 192, 384, 768, 1536]" by (rule dimensions_def)
  have six: "length dimensions = 6" by (simp add: dimensions_def)
  show "length (fst (loop_result E w)) = 6"
    by (simp only: length_loop_result six)
  show "fst (loop_result E w)
       = map (\<lambda>X. Max (spec_pairwise_distances X) / (Min (spec_pairwise_distances X) + 1 / 10 ^ 12))
           (samples E (rng_pos w) dimensions)"
    by (simp add: loop_result_eq spec_reducer_def spec_epsilon_def)
  show "map (map length) (samples E (rng_pos w) dimensions) = map (replicate 1000) dimensions"
    by (rule samples_shape)
  have labels: "map str_nat dimensions = [''2'', ''3'', ''192'', ''384'', ''768'', ''1536'']"
    by (simp add: dimensions_def str_nat.simps digit_char_def)
  from draw_chart_Inr [where ratios = "fst (loop_result E w)" and E = E, OF length_loop_result(1)]
  show "\<exists>ax. draw_chart E (fst (loop_result E w)) empty_axes = Inr ax
         \<and> map bar_height (ax_bars ax) = fst (loop_result E w)
         \<and> map bar_x (ax_bars ax) = map (\<lambda>i. real i - 3 / 10) [0..<6]
         \<and> ax_xticks ax = [0..<6]
         \<and> ax_xticklabels ax = [''2'', ''3'', ''192'', ''384'', ''768'', ''1536'']"
    by (simp only: six labels)
qed

text \<open>
  Claim C6, as the code has it. \<^verbatim>\<open>plt.style.use\<close> changes the process-wide settings and
  nothing restores them: when the call ends, normally or by an exception, the
  settings are the caller's overridden by the sheet \<^verbatim>\<open>seaborn-v0_8\<close>; they are the
  caller's own only when the sheet is not found (the call then raises \<^verbatim>\<open>OSError\<close>).
\<close>

theorem style_persists:
  "rcParams (snd (exp_curse_of_dimensionality E save_path show w)) =
     (case style_library E ''seaborn-v0_8'' of
        None \<Rightarrow> rcParams w
      | Some sheet \<Rightarrow> rcParams w ++ sheet)"
  by (auto simp: exp_unfold run_defs split: option.splits sum.splits prod.splits if_splits)

text \<open>
  Claim C6 as stated fails. A caller whose \<^verbatim>\<open>axes.facecolor\<close> is \<^verbatim>\<open>white\<close> finds it
  \<^verbatim>\<open>#EAEAF2\<close> after the call has returned normally.
\<close>

theorem style_leaks_example:
  "fst (exp_curse_of_dimensionality example_env None False example_world)
     = Inr (the_figure example_env example_world, the_chart example_env example_world)
   \<and> rcParams example_world ''axes.facecolor'' = Some ''white''
   \<and> rcParams (snd (exp_curse_of_dimensionality example_env None False example_world))
        ''axes.facecolor'' = Some ''#EAEAF2''
   \<and> rcParams (snd (exp_curse_of_dimensionality example_env None False example_world))
        \<noteq> rcParams example_world"
proof -
  have a: "rcParams example_world ''axes.facecolor'' = Some ''white''"
    by (simp add: world_simps)
  have b: "rcParams (snd (exp_curse_of_dimensionality example_env None False example_world))
        ''axes.facecolor'' = Some ''#EAEAF2''"
    by (simp add: example_simps)
  have c: "fst (exp_curse_of_dimensionality example_env None False example_world)
     = Inr (the_figure example_env example_world, the_chart example_env example_world)"
    by (simp add: example_simps)
  have "rcParams (snd (exp_curse_of_dimensionality example_env None False example_world))
        \<noteq> rcParams example_world"
  proof
    assume "rcParams (snd (exp_curse_of_dimensionality example_env None False example_world))
        = rcParams example_world"
    with a b show False by simp
  qed
  with a b c show ?thesis by blast
qed




text \<open>
  Claim C8, as the code has it. A call with no argument is the call with
  \<^verbatim>\<open>save_path = None\<close> and \<^verbatim>\<open>show = True\<close>, and the script's entry point does what that
  call does, dropping the result. With \<^verbatim>\<open>show = False\<close> nothing is presented, on every
  path. With \<^verbatim>\<open>show = True\<close> the call hands the open figures, the new one among them,
  to \<^verbatim>\<open>plt.show()\<close> once, when it gets that far (the style sheet was found and saving
  was skipped or did not raise); what is presented then is what the backend
  presents, and nothing when \<^verbatim>\<open>plt.show()\<close> raises.
\<close>

theorem show_flag_effect:
  "call_exp E None None w = exp_curse_of_dimensionality E None True w
   \<and> main E w = (map_sum id (\<lambda>r. ()) (fst (exp_curse_of_dimensionality E None True w)),
                 snd (exp_curse_of_dimensionality E None True w))
   \<and> shown (snd (exp_curse_of_dimensionality E save_path False w)) = shown w
   \<and> shown (snd (exp_curse_of_dimensionality E save_path True w)) =
       (if style_library E ''seaborn-v0_8'' \<noteq> None
           \<and> (case save_path of None \<Rightarrow> True | Some p \<Rightarrow> p = [] \<or> savefig_raises E p = None)
        then (case show_result E (open_figs w @ [fig_number (the_figure E w)]) of
                Inl e \<Rightarrow> shown w
              | Inr (presented, remaining) \<Rightarrow> shown w @ [presented])
        else shown w)"
proof (intro conjI)
  show "call_exp E None None w = exp_curse_of_dimensionality E None True w"
    by (simp add: call_exp_def default_save_path_def default_show_def)
  then show "main E w = (map_sum id (\<lambda>r. ()) (fst (exp_curse_of_dimensionality E None True w)),
                 snd (exp_curse_of_dimensionality E None True w))"
    by (simp add: main_def split: prod.splits sum.splits)
  show "shown (snd (exp_curse_of_dimensionality E save_path False w)) = shown w"
    by (auto simp: exp_unfold run_defs split: option.splits sum.splits prod.splits if_splits)
  show "shown (snd (exp_curse_of_dimensionality E save_path True w)) =
       (if style_library E ''seaborn-v0_8'' \<noteq> None
           \<and> (case save_path of None \<Rightarrow> True | Some p \<Rightarrow> p = [] \<or> savefig_raises E p = None)
        then (case show_result E (open_figs w @ [fig_number (the_figure E w)]) of
                Inl e \<Rightarrow> shown w
              | Inr (presented, remaining) \<Rightarrow> shown w @ [presented])
        else shown w)"
    by (auto simp: exp_unfold run_defs the_figure_def
        split: option.splits sum.splits prod.splits if_splits)
qed

text \<open>
  Claim C8, instances: the entry point on a host with a GUI backend presents figure
  1 and returns, and a call with \<^verbatim>\<open>show = False\<close> presents nothing.
\<close>

theorem show_flag_effect_witness:
  "fst (main example_env example_world) = Inr ()
   \<and> shown (snd (main example_env example_world)) = [[1]]
   \<and> shown (snd (exp_curse_of_dimensionality example_env (Some ''plot.png'') False
        example_world)) = []"
proof -
  have a: "fst (exp_curse_of_dimensionality example_env None True example_world)
     = Inr (the_figure example_env example_world, the_chart example_env example_world)"
    by (simp add: example_simps)
  from show_flag_effect [of example_env example_world None]
    show_flag_effect [of example_env example_world "Some ''plot.png''"] a
  show ?thesis by (simp add: env_simps world_simps next_fignum_def the_figure_def)
qed

text \<open>
  Claim C8 as stated fails. With \<^verbatim>\<open>show = True\<close>, on a host with a non-GUI backend the
  call returns normally and no figure was presented; when \<^verbatim>\<open>savefig\<close> raises,
  \<^verbatim>\<open>plt.show()\<close> is never reached; and when \<^verbatim>\<open>plt.show()\<close> itself raises nothing was
  presented either.
\<close>

theorem show_true_not_presented_example:
  "fst (exp_curse_of_dimensionality agg_env None True example_world)
     = Inr (the_figure agg_env example_world, the_chart agg_env example_world)
   \<and> shown (snd (exp_curse_of_dimensionality agg_env None True example_world)) = [[]]
   \<and> fst (exp_curse_of_dimensionality example_env (Some ''/no/such/dir/plot.png'') True
        example_world) = Inl OSError
   \<and> shown (snd (exp_curse_of_dimensionality example_env (Some ''/no/such/dir/plot.png'') True
        example_world)) = []
   \<and> fst (exp_curse_of_dimensionality headless_env None True example_world) = Inl BackendError
   \<and> shown (snd (exp_curse_of_dimensionality headless_env None True example_world)) = []"
  by (simp add: example_simps)

text \<open>
  Claim C9. Whatever the arguments and the host, the console receives, after what
  was there, exactly one line for each of the 6 dimensions, in list order, with the
  dimension, the minimum distance and the maximum distance formatted with \<^verbatim>\<open>.6g\<close> (6
  significant digits) and the ratio formatted with \<^verbatim>\<open>.6g\<close>; the only other line is
  \<^verbatim>\<open>Saved plot to ...\<close>, after them, when the figure was saved.
\<close>

theorem one_line_per_dimension:
  "stdout (snd (exp_curse_of_dimensionality E save_path show w)) =
     stdout w @
     map (\<lambda>i. ''Dimension: '' @ str_nat (dimensions ! i) @
               '', Min Distance: '' @ format_float E ''.6g'' (fst (snd (loop_result E w)) ! i) @
               '', Max Distance: '' @ format_float E ''.6g'' (snd (snd (loop_result E w)) ! i) @
               '', Ratio (Max/Min): '' @ format_float E ''.6g'' (fst (loop_result E w) ! i))
       [0..<length dimensions] @
     (case save_path of
        None \<Rightarrow> []
      | Some p \<Rightarrow>
          if p \<noteq> [] \<and> style_library E ''seaborn-v0_8'' \<noteq> None \<and> savefig_raises E p = None
          then [''Saved plot to '' @ p] else [])
   \<and> length dimensions = 6
   \<and> fst (dim_loop E dimensions ([], [], []) w) = Inr (loop_result E w)"
proof (intro conjI)
  have frame: "stdout (styled E sheet w) = stdout (after_loop E w)" for sheet
    by (simp add: styled_def)
  have "stdout (snd (exp_curse_of_dimensionality E save_path show w)) =
     stdout (after_loop E w) @
     (case save_path of
        None \<Rightarrow> []
      | Some p \<Rightarrow>
          if p \<noteq> [] \<and> style_library E ''seaborn-v0_8'' \<noteq> None \<and> savefig_raises E p = None
          then [''Saved plot to '' @ p] else [])"
    by (auto simp: exp_unfold save_show_close_def save_step_def show_step_def savefig_def
          plt_show_def plt_close_def print_def frame
        split: option.splits sum.splits prod.splits if_splits)
  then show "stdout (snd (exp_curse_of_dimensionality E save_path show w)) =
     stdout w @
     map (\<lambda>i. ''Dimension: '' @ str_nat (dimensions ! i) @
               '', Min Distance: '' @ format_float E ''.6g'' (fst (snd (loop_result E w)) ! i) @
               '', Max Distance: '' @ format_float E ''.6g'' (snd (snd (loop_result E w)) ! i) @
               '', Ratio (Max/Min): '' @ format_float E ''.6g'' (fst (loop_result E w) ! i))
       [0..<length dimensions] @
     (case save_path of
        None \<Rightarrow> []
      | Some p \<Rightarrow>
          if p \<noteq> [] \<and> style_library E ''seaborn-v0_8'' \<noteq> None \<and> savefig_raises E p = None
          then [''Saved plot to '' @ p] else [])"
    by (simp only: stdout_after_loop dim_line_def append_assoc)
  show "length dimensions = 6" by (simp add: dimensions_def)
  show "fst (dim_loop E dimensions ([], [], []) w) = Inr (loop_result E w)"
    by (simp add: dim_loop_result)
qed

text \<open>
  Claim C10. When the call returns normally, the figure it returns is no longer
  registered with pyplot: the final state is the result of \<^verbatim>\<open>plt.close\<close> on that
  figure.
\<close>

theorem closed_before_return:
  assumes "fst (exp_curse_of_dimensionality E save_path show w) = Inr (fig, ax)"
  shows "fig_number fig \<notin> set (open_figs (snd (exp_curse_of_dimensionality E save_path show w)))
       \<and> (\<exists>w3. snd (exp_curse_of_dimensionality E save_path show w) = plt_close fig w3)"
proof (cases "style_library E ''seaborn-v0_8''")
  case None
  with assms show ?thesis by (simp add: exp_unfold)
next
  case (Some sheet)
  with assms have
    "fst (save_show_close E save_path show (the_figure E w) (the_chart E w) (styled E sheet w))
       = Inr (fig, ax)"
    by (simp add: exp_unfold)
  from save_show_close_Inr [OF this] obtain w3 where
    "(fig, ax) = (the_figure E w, the_chart E w)"
    "snd (save_show_close E save_path show (the_figure E w) (the_chart E w) (styled E sheet w))
       = plt_close (the_figure E w) w3"
    by blast
  with Some have "snd (exp_curse_of_dimensionality E save_path show w) = plt_close fig w3"
    by (simp add: exp_unfold)
  then show ?thesis by (auto simp: plt_close_def)
qed

text \<open>
  Claim C10, an instance: a call that saves and shows returns figure 1, and
  figure 1 is not open afterwards.
\<close>

theorem closed_before_return_witness:
  "fst (exp_curse_of_dimensionality example_env (Some ''plot.png'') True example_world)
     = Inr (the_figure example_env example_world, the_chart example_env example_world)
   \<and> fig_number (the_figure example_env example_world) = 1
   \<and> 1 \<notin> set (open_figs
        (snd (exp_curse_of_dimensionality example_env (Some ''plot.png'') True example_world)))"
proof -
  have h: "fst (exp_curse_of_dimensionality example_env (Some ''plot.png'') True example_world)
     = Inr (the_figure example_env example_world, the_chart example_env example_world)"
    by (simp add: example_simps)
  have n: "fig_number (the_figure example_env example_world) = 1"
    by (simp add: example_simps)
  from closed_before_return [OF h] h n show ?thesis by simp
qed

end
